theory Spec2Isabelle
  imports Complex_Main "HOL-Library.Extended_Nat" "HOL-Library.Product_Lexorder"
    "HOL-Library.Sublist" "HOL-Library.Multiset"
begin

section \<open>Python values and exceptions\<close>

text \<open>
  The program reads JSON decoded by \<^verbatim>\<open>response.json()\<close> / \<^verbatim>\<open>json.load\<close>, so every
  value it inspects is one of Python's JSON types. A dict keeps its insertion order and
  is an association list whose keys are strings; \<^verbatim>\<open>None\<close> is \<open>PNone\<close>.
\<close>

datatype pyfloat = Finite rat | PosInf | NegInf | NaN

datatype pyval =
    PNone
  | PBool bool
  | PInt int
  | PFloat pyfloat
  | PStr string
  | PList "pyval list"
  | PDict "(string \<times> pyval) list"

text \<open>
  The exceptions the modelled code can meet. \<open>KeyboardInterrupt\<close> and \<open>SystemExit\<close>
  derive from \<^verbatim>\<open>BaseException\<close> only, so \<^verbatim>\<open>except Exception\<close> does not catch them.
\<close>

datatype pyexc =
    AttributeError
  | TypeError
  | KeyError
  | IndexError
  | ValueError
  | HTTPError
  | ConnectionError
  | Exception string
  | KeyboardInterrupt
  | SystemExit

fun is_Exception :: "pyexc \<Rightarrow> bool" where
  "is_Exception KeyboardInterrupt = False"
| "is_Exception SystemExit = False"
| "is_Exception _ = True"

definition ebind :: "pyexc + 'a \<Rightarrow> ('a \<Rightarrow> pyexc + 'b) \<Rightarrow> pyexc + 'b" where
  "ebind m f = (case m of Inl e \<Rightarrow> Inl e | Inr x \<Rightarrow> f x)"

text \<open>Truth value testing, as \<^verbatim>\<open>if v:\<close> and \<^verbatim>\<open>v or w\<close> apply it.\<close>

fun truthy :: "pyval \<Rightarrow> bool" where
  "truthy PNone = False"
| "truthy (PBool b) = b"
| "truthy (PInt i) = (i \<noteq> 0)"
| "truthy (PFloat f) = (f \<noteq> Finite 0)"
| "truthy (PStr s) = (s \<noteq> [])"
| "truthy (PList xs) = (xs \<noteq> [])"
| "truthy (PDict kvs) = (kvs \<noteq> [])"

text \<open>\<^verbatim>\<open>v.get(k, default)\<close>: only a dict has the method.\<close>

fun py_get :: "pyval \<Rightarrow> string \<Rightarrow> pyval \<Rightarrow> pyexc + pyval" where
  "py_get (PDict kvs) k dflt = Inr (case map_of kvs k of None \<Rightarrow> dflt | Some v \<Rightarrow> v)"
| "py_get _ k dflt = Inl AttributeError"

text \<open>\<^verbatim>\<open>v[k]\<close> with a string key.\<close>

fun py_getitem_key :: "pyval \<Rightarrow> string \<Rightarrow> pyexc + pyval" where
  "py_getitem_key (PDict kvs) k = (case map_of kvs k of None \<Rightarrow> Inl KeyError | Some v \<Rightarrow> Inr v)"
| "py_getitem_key _ k = Inl TypeError"

text \<open>
  \<^verbatim>\<open>v[i]\<close> with a non-negative integer index: a list or a string is indexed (out of range
  raises IndexError), a dict has no integer key, anything else is not subscriptable.
\<close>

fun py_getitem :: "pyval \<Rightarrow> nat \<Rightarrow> pyexc + pyval" where
  "py_getitem (PList xs) i = (if i < length xs then Inr (xs ! i) else Inl IndexError)"
| "py_getitem (PStr s) i = (if i < length s then Inr (PStr [s ! i]) else Inl IndexError)"
| "py_getitem (PDict kvs) i = Inl KeyError"
| "py_getitem _ i = Inl TypeError"

text \<open>\<^verbatim>\<open>k in v\<close> for a string \<open>k\<close>.\<close>

fun py_contains :: "string \<Rightarrow> pyval \<Rightarrow> pyexc + bool" where
  "py_contains k (PDict kvs) = Inr (k \<in> set (map fst kvs))"
| "py_contains k (PList xs) = Inr (PStr k \<in> set xs)"
| "py_contains k (PStr s) = Inr (sublist k s)"
| "py_contains k _ = Inl TypeError"

text \<open>\<^verbatim>\<open>hash(v)\<close> succeeds on every JSON value but a list or a dict.\<close>

fun hashable :: "pyval \<Rightarrow> bool" where
  "hashable (PList xs) = False"
| "hashable (PDict kvs) = False"
| "hashable _ = True"

section \<open>Dates\<close>

text \<open>
  A \<^verbatim>\<open>datetime\<close> is its fields (year, month, day, hour, minute, second, microsecond) and
  its UTC offset in microseconds; a naive value (\<^verbatim>\<open>tzinfo=None\<close>) has no offset, an aware
  one has. \<^verbatim>\<open>datetime(y, m, d)\<close> is naive and leaves the time at midnight;
  \<^verbatim>\<open>datetime.fromisoformat\<close> returns an aware value for a string that ends in an offset.
\<close>

datatype datetime = Datetime nat nat nat nat nat nat nat "int option"

fun fields :: "datetime \<Rightarrow> nat \<times> nat \<times> nat \<times> nat \<times> nat \<times> nat \<times> nat" where
  "fields (Datetime y mo d h mi s us off) = (y, mo, d, h, mi, s, us)"

fun utcoffset :: "datetime \<Rightarrow> int option" where
  "utcoffset (Datetime y mo d h mi s us off) = off"

definition datetime :: "nat \<Rightarrow> nat \<Rightarrow> nat \<Rightarrow> datetime" where
  "datetime y m d = Datetime y m d 0 0 0 0 None"

text \<open>
  The proleptic Gregorian ordinal of a day, as \<^verbatim>\<open>date.toordinal\<close> counts it, and the
  instant of a \<^verbatim>\<open>datetime\<close> in microseconds after its offset is taken off.
\<close>

definition is_leap :: "nat \<Rightarrow> bool" where
  "is_leap y = (y mod 4 = 0 \<and> (y mod 100 \<noteq> 0 \<or> y mod 400 = 0))"

definition days_in_month :: "nat \<Rightarrow> nat \<Rightarrow> nat" where
  "days_in_month y m =
     (if m = 2 then (if is_leap y then 29 else 28)
      else if m = 4 \<or> m = 6 \<or> m = 9 \<or> m = 11 then 30 else 31)"

definition days_before_year :: "nat \<Rightarrow> nat" where
  "days_before_year y = (y - 1) * 365 + (y - 1) div 4 - (y - 1) div 100 + (y - 1) div 400"

definition days_before_month :: "nat \<Rightarrow> nat \<Rightarrow> nat" where
  "days_before_month y m = sum_list (map (days_in_month y) [1..<m])"

definition ymd2ord :: "nat \<Rightarrow> nat \<Rightarrow> nat \<Rightarrow> nat" where
  "ymd2ord y m d = days_before_year y + days_before_month y m + d"

fun utc_instant :: "datetime \<Rightarrow> int" where
  "utc_instant (Datetime y mo d h mi s us off) =
     int ((((ymd2ord y mo d * 24 + h) * 60 + mi) * 60 + s) * 1000000 + us)
       - (case off of None \<Rightarrow> 0 | Some offset \<Rightarrow> offset)"

text \<open>
  \<^verbatim>\<open>a == b\<close> and \<^verbatim>\<open>a < b\<close> on two datetimes. Two naive values are compared by their
  fields in order, two aware values by their instants. A naive and an aware value are
  never equal, and ordering them raises TypeError.
\<close>

definition dt_eq :: "datetime \<Rightarrow> datetime \<Rightarrow> bool" where
  "dt_eq a b =
     (case (utcoffset a, utcoffset b) of
        (None, None) \<Rightarrow> fields a = fields b
      | (Some x, Some y) \<Rightarrow> utc_instant a = utc_instant b
      | _ \<Rightarrow> False)"

definition dt_lt :: "datetime \<Rightarrow> datetime \<Rightarrow> pyexc + bool" where
  "dt_lt a b =
     (case (utcoffset a, utcoffset b) of
        (None, None) \<Rightarrow> Inr (fields a < fields b)
      | (Some x, Some y) \<Rightarrow> Inr (utc_instant a < utc_instant b)
      | _ \<Rightarrow> Inl TypeError)"

text \<open>
  \<^verbatim>\<open>datetime.fromisoformat\<close> is library code: the model takes it as a parameter
  \<open>fromisoformat :: string \<Rightarrow> datetime option\<close> where \<open>None\<close> is its ValueError.
  A non-string argument is a TypeError.
\<close>

fun py_fromisoformat :: "(string \<Rightarrow> datetime option) \<Rightarrow> pyval \<Rightarrow> pyexc + datetime" where
  "py_fromisoformat fromisoformat (PStr s) =
     (case fromisoformat s of None \<Rightarrow> Inl ValueError | Some d \<Rightarrow> Inr d)"
| "py_fromisoformat fromisoformat _ = Inl TypeError"

text \<open>
  The date-only part of \<^verbatim>\<open>fromisoformat\<close>, the strings \<^verbatim>\<open>YYYY-MM-DD\<close> of a valid calendar
  day, used where a concrete instance of the parameter is needed.
\<close>

definition digit_of :: "char \<Rightarrow> nat option" where
  "digit_of c = (let n = (of_char c :: nat) in if 48 \<le> n \<and> n \<le> 57 then Some (n - 48) else None)"

fun digits_value :: "nat \<Rightarrow> string \<Rightarrow> nat option" where
  "digits_value acc [] = Some acc"
| "digits_value acc (c # cs) =
     (case digit_of c of None \<Rightarrow> None | Some d \<Rightarrow> digits_value (10 * acc + d) cs)"

definition fromisoformat_date :: "string \<Rightarrow> datetime option" where
  "fromisoformat_date s =
     (if length s = 10 \<and> s ! 4 = CHR ''-'' \<and> s ! 7 = CHR ''-'' then
        (case (digits_value 0 (take 4 s), digits_value 0 (take 2 (drop 5 s)),
               digits_value 0 (drop 8 s)) of
           (Some y, Some m, Some d) \<Rightarrow>
             if 1 \<le> y \<and> 1 \<le> m \<and> m \<le> 12 \<and> 1 \<le> d \<and> d \<le> days_in_month y m
             then Some (datetime y m d) else None
         | _ \<Rightarrow> None)
      else None)"

section \<open>MarketingRequest\<close>

text \<open>
  \<^verbatim>\<open>STATUS_ORDER\<close> ranks the five statuses. \<^verbatim>\<open>STATUS_ORDER.get(status, float('inf'))\<close>
  hashes its argument first (a list or a dict raises TypeError); only a string can equal
  a key, and every other value gets infinity.
\<close>

definition STATUS_ORDER :: "(string \<times> nat) list" where
  "STATUS_ORDER =
     [(''Not Started'', 0), (''Need Visuals'', 1), (''Drafted'', 2), (''Confirmed'', 3),
      (''Posted'', 4)]"

fun STATUS_ORDER_get :: "pyval \<Rightarrow> pyexc + enat" where
  "STATUS_ORDER_get (PStr s) =
     Inr (case map_of STATUS_ORDER s of None \<Rightarrow> \<infinity> | Some n \<Rightarrow> enat n)"
| "STATUS_ORDER_get v = (if hashable v then Inr \<infinity> else Inl TypeError)"

text \<open>
  The dataclass. Python does not enforce the field annotations, and \<^verbatim>\<open>from_notion_page\<close>
  stores whatever the page holds, so the fields are Python values; \<open>post_date\<close> is
  \<^verbatim>\<open>Optional[datetime]\<close>. The field \<^verbatim>\<open>id\<close> is \<open>req_id\<close> here.
\<close>

record MarketingRequest =
  req_id :: pyval
  title :: pyval
  event :: pyval
  content_type :: pyval
  status :: pyval
  content_summary :: pyval
  post_date :: "datetime option"
  final_post :: pyval
  visuals :: pyval

text \<open>
  \<^verbatim>\<open>get_first\<close> (lines 64-71): the condition
  \<^verbatim>\<open>val and isinstance(val, list) and len(val) > 0 and isinstance(val[0], list) and len(val[0]) > 0\<close>
  holds exactly for a list whose first element is a non-empty list; then \<^verbatim>\<open>val[0][0]\<close> is
  returned, otherwise \<^verbatim>\<open>None\<close>. \<^verbatim>\<open>properties.get\<close> raises when \<open>properties\<close> is no dict.
\<close>

definition get_first :: "pyval \<Rightarrow> string \<Rightarrow> pyexc + pyval" where
  "get_first properties prop_key =
     ebind (py_get properties prop_key PNone) (\<lambda>val.
       case val of
         PList (PList (x # xs) # ys) \<Rightarrow> Inr x
       | _ \<Rightarrow> Inr PNone)"

text \<open>
  The shape \<^verbatim>\<open>get_first\<close> expects of a property: a list whose first element is a
  non-empty list, \<^verbatim>\<open>[[x, ...], ...]\<close>.
\<close>

fun list_of_lists_shape :: "pyval \<Rightarrow> bool" where
  "list_of_lists_shape (PList (PList (x # xs) # ys)) = True"
| "list_of_lists_shape _ = False"

text \<open>\<^verbatim>\<open>x or ""\<close>.\<close>

definition or_empty :: "pyval \<Rightarrow> pyval" where
  "or_empty x = (if truthy x then x else PStr [])"

text \<open>\<^verbatim>\<open>properties["{Rrz"][0][1][0][1].get("start_date")\<close> (line 85).\<close>

definition start_date_of :: "pyval \<Rightarrow> pyexc + pyval" where
  "start_date_of properties =
     ebind (py_getitem_key properties ''{Rrz'') (\<lambda>a.
     ebind (py_getitem a 0) (\<lambda>b.
     ebind (py_getitem b 1) (\<lambda>c.
     ebind (py_getitem c 0) (\<lambda>d.
     ebind (py_getitem d 1) (\<lambda>e.
       py_get e ''start_date'' PNone)))))"

text \<open>The body of the \<^verbatim>\<open>try\<close> (lines 85-89).\<close>

definition post_date_try :: "(string \<Rightarrow> datetime option) \<Rightarrow> pyval \<Rightarrow> pyexc + datetime" where
  "post_date_try fromisoformat properties =
     ebind (start_date_of properties) (\<lambda>date_str.
       if truthy date_str then py_fromisoformat fromisoformat date_str
       else Inr (datetime 2024 9 1))"

text \<open>Lines 80-96: the \<^verbatim>\<open>except Exception\<close> handler and the \<^verbatim>\<open>else\<close> branch give the same date.\<close>

definition post_date_of :: "(string \<Rightarrow> datetime option) \<Rightarrow> pyval \<Rightarrow> pyexc + datetime" where
  "post_date_of fromisoformat properties =
     ebind (py_contains ''{Rrz'' properties) (\<lambda>present.
       if present then
         (case post_date_try fromisoformat properties of
            Inr d \<Rightarrow> Inr d
          | Inl e \<Rightarrow> if is_Exception e then Inr (datetime 2024 9 1) else Inl e)
       else Inr (datetime 2024 9 1))"

definition from_notion_page ::
  "(string \<Rightarrow> datetime option) \<Rightarrow> pyval \<Rightarrow> pyexc + MarketingRequest" where
  "from_notion_page fromisoformat page =
     ebind (py_get page ''properties'' (PDict [])) (\<lambda>properties.
     ebind (get_first properties ''title'') (\<lambda>t.
     ebind (get_first properties ''>zXz'') (\<lambda>ev.
     ebind (get_first properties ''aJ@j'') (\<lambda>ct.
     ebind (get_first properties ''nSLy'') (\<lambda>st.
     ebind (get_first properties ''[B|e'') (\<lambda>cs.
     ebind (post_date_of fromisoformat properties) (\<lambda>pd.
     ebind (py_get page ''id'' PNone) (\<lambda>i.
       Inr \<lparr> req_id = i, title = or_empty t, event = ev, content_type = ct, status = st,
             content_summary = cs, post_date = Some pd, final_post = PNone,
             visuals = PNone \<rparr>))))))))"

text \<open>
  \<^verbatim>\<open>_sort_key\<close> (lines 112-124). The rank is an \<open>int\<close> or \<^verbatim>\<open>float('inf')\<close>, an \<open>enat\<close> here.
\<close>

definition MarketingRequest_sort_key :: "MarketingRequest \<Rightarrow> pyexc + enat \<times> datetime" where
  "MarketingRequest_sort_key self =
     ebind (STATUS_ORDER_get (status self)) (\<lambda>status_rank.
       Inr (status_rank, (case post_date self of None \<Rightarrow> datetime 2024 9 1 | Some d \<Rightarrow> d)))"

text \<open>
  Python compares two tuples at the first position where the components are not equal
  (\<^verbatim>\<open>==\<close>), with \<^verbatim>\<open><\<close> on the components there; two equal tuples are not less than
  each other. So the dates are ordered only when the ranks are equal and the dates are
  not, and only then can the comparison raise.
\<close>

definition tuple_lt :: "enat \<times> datetime \<Rightarrow> enat \<times> datetime \<Rightarrow> pyexc + bool" where
  "tuple_lt k1 k2 =
     (if fst k1 \<noteq> fst k2 then Inr (fst k1 < fst k2)
      else if \<not> dt_eq (snd k1) (snd k2) then dt_lt (snd k1) (snd k2)
      else Inr False)"

definition tuple_eq :: "enat \<times> datetime \<Rightarrow> enat \<times> datetime \<Rightarrow> bool" where
  "tuple_eq k1 k2 = (fst k1 = fst k2 \<and> dt_eq (snd k1) (snd k2))"

text \<open>\<^verbatim>\<open>__eq__\<close> and \<^verbatim>\<open>__lt__\<close> (lines 126-134) between two requests.\<close>

definition MarketingRequest_eq :: "MarketingRequest \<Rightarrow> MarketingRequest \<Rightarrow> pyexc + bool" where
  "MarketingRequest_eq self other =
     ebind (MarketingRequest_sort_key self) (\<lambda>k1.
     ebind (MarketingRequest_sort_key other) (\<lambda>k2. Inr (tuple_eq k1 k2)))"

definition MarketingRequest_lt :: "MarketingRequest \<Rightarrow> MarketingRequest \<Rightarrow> pyexc + bool" where
  "MarketingRequest_lt self other =
     ebind (MarketingRequest_sort_key self) (\<lambda>k1.
     ebind (MarketingRequest_sort_key other) (\<lambda>k2. tuple_lt k1 k2))"

text \<open>Membership of a status in \<^verbatim>\<open>STATUS_ORDER\<close>: only a string can be one of its keys.\<close>

fun ranked :: "pyval \<Rightarrow> bool" where
  "ranked (PStr s) = (s \<in> set (map fst STATUS_ORDER))"
| "ranked _ = False"

section \<open>MarketingRequestCollection\<close>

text \<open>
  \<^verbatim>\<open>list.sort()\<close> is a stable sort that compares with \<^verbatim>\<open><\<close> only and lets an exception
  of the comparison through. It is modelled by the stable insertion sort: each element,
  in list order, goes before the first element it is less than. Where no comparison
  raises, the result of a stable sort does not depend on the algorithm. A sort of two or
  more elements compares every element at least once, and it cannot place two elements
  of one rank, one dated naive and one aware, without comparing such a pair; so any
  sorting algorithm raises on the inputs on which this one does: those with an
  unhashable status among two or more requests, or with a naive and an aware date in one
  rank.
\<close>

fun insort_request :: "MarketingRequest \<Rightarrow> MarketingRequest list \<Rightarrow> pyexc + MarketingRequest list" where
  "insort_request x [] = Inr [x]"
| "insort_request x (y # ys) =
     (case MarketingRequest_lt x y of
        Inl e \<Rightarrow> Inl e
      | Inr b \<Rightarrow>
          if b then Inr (x # y # ys)
          else (case insort_request x ys of Inl e \<Rightarrow> Inl e | Inr zs \<Rightarrow> Inr (y # zs)))"

fun sort_loop :: "MarketingRequest list \<Rightarrow> MarketingRequest list \<Rightarrow> pyexc + MarketingRequest list" where
  "sort_loop acc [] = Inr acc"
| "sort_loop acc (x # xs) =
     (case insort_request x acc of Inl e \<Rightarrow> Inl e | Inr acc' \<Rightarrow> sort_loop acc' xs)"

definition list_sort :: "MarketingRequest list \<Rightarrow> pyexc + MarketingRequest list" where
  "list_sort rs = sort_loop [] rs"

record MarketingRequestCollection =
  requests :: "MarketingRequest list"

text \<open>\<^verbatim>\<open>blocks.values()\<close>.\<close>

fun py_values :: "pyval \<Rightarrow> pyexc + pyval list" where
  "py_values (PDict kvs) = Inr (map snd kvs)"
| "py_values _ = Inl AttributeError"

text \<open>The loop of \<^verbatim>\<open>from_record_map\<close> (lines 152-156), the list built so far as accumulator.\<close>

fun map_blocks ::
  "(string \<Rightarrow> datetime option) \<Rightarrow> pyval list \<Rightarrow> MarketingRequest list \<Rightarrow> pyexc + MarketingRequest list" where
  "map_blocks fromisoformat [] reqs = Inr reqs"
| "map_blocks fromisoformat (block_data # rest) reqs =
     (case py_get block_data ''value'' (PDict []) of
        Inl e \<Rightarrow> Inl e
      | Inr v \<Rightarrow>
          (case from_notion_page fromisoformat v of
             Inl e \<Rightarrow> Inl e
           | Inr req \<Rightarrow> map_blocks fromisoformat rest (reqs @ [req])))"

definition from_record_map ::
  "(string \<Rightarrow> datetime option) \<Rightarrow> pyval \<Rightarrow> pyexc + MarketingRequestCollection" where
  "from_record_map fromisoformat record_map =
     ebind (py_get record_map ''recordMap'' (PDict [])) (\<lambda>rm.
     ebind (py_get rm ''block'' (PDict [])) (\<lambda>blocks.
     ebind (py_values blocks) (\<lambda>block_list.
     ebind (map_blocks fromisoformat block_list []) (\<lambda>reqs.
     ebind (list_sort reqs) (\<lambda>sorted_reqs.
       Inr \<lparr> requests = sorted_reqs \<rparr>)))))"

text \<open>
  \<^verbatim>\<open>_fetch\<close> (lines 160-164): the comprehension \<^verbatim>\<open>[req for req in self.requests if key(req) == val]\<close>.
  \<open>val\<close> is a \<^verbatim>\<open>str\<close> in both callers, and a string equals a Python value only when that
  value is the same string.
\<close>

fun py_eq_str :: "pyval \<Rightarrow> string \<Rightarrow> bool" where
  "py_eq_str (PStr t) s = (t = s)"
| "py_eq_str _ s = False"

primrec fetch :: "string \<Rightarrow> (MarketingRequest \<Rightarrow> pyval) \<Rightarrow> MarketingRequest list \<Rightarrow> MarketingRequest list" where
  "fetch val key [] = []"
| "fetch val key (req # rest) =
     (if py_eq_str (key req) val then req # fetch val key rest else fetch val key rest)"

definition fetch_requests_by_status :: "MarketingRequestCollection \<Rightarrow> string \<Rightarrow> MarketingRequest list" where
  "fetch_requests_by_status self s = fetch s status (requests self)"

definition fetch_requests_by_type :: "MarketingRequestCollection \<Rightarrow> string \<Rightarrow> MarketingRequest list" where
  "fetch_requests_by_type self t = fetch t content_type (requests self)"

text \<open>
  The names an instance of \<^verbatim>\<open>MarketingRequestCollection\<close> resolves beyond those of
  \<^verbatim>\<open>object\<close>: the instance attribute set by \<^verbatim>\<open>__init__\<close> and the methods of the class body
  (lines 137-189). Looking up any other name raises AttributeError.
\<close>

definition MarketingRequestCollection_attributes :: "string list" where
  "MarketingRequestCollection_attributes =
     [''requests'', ''__init__'', ''from_record_map'', ''_fetch'', ''fetch_requests_by_status'',
      ''fetch_requests_by_type'', ''__iter__'', ''__len__'', ''__getitem__'', ''__repr__'']"

definition collection_getattr :: "MarketingRequestCollection \<Rightarrow> string \<Rightarrow> pyexc + string" where
  "collection_getattr self name =
     (if name \<in> set MarketingRequestCollection_attributes then Inr name else Inl AttributeError)"

text \<open>
  \<^verbatim>\<open>generate_posting_schedule\<close> (SlackInterconnect.py, lines 46-51) and
  \<^verbatim>\<open>generate_weekly_posting_schedule\<close> (SlackFlask.py, lines 66-69) up to the evaluation of
  \<^verbatim>\<open>y.filter_by_criterion\<close>, given the outcome of the query.
\<close>

definition posting_schedule_lookup :: "pyexc + MarketingRequestCollection \<Rightarrow> pyexc + string" where
  "posting_schedule_lookup query_result =
     ebind query_result (\<lambda>y. collection_getattr y ''filter_by_criterion'')"

section \<open>Slack webhook\<close>

text \<open>\<^verbatim>\<open>str(n)\<close> for an \<open>int\<close>.\<close>

fun str_nat :: "nat \<Rightarrow> string" where
  "str_nat n =
     (if n < 10 then [char_of (48 + n)]
      else str_nat (n div 10) @ [char_of (48 + n mod 10)])"

definition str_int :: "int \<Rightarrow> string" where
  "str_int i = (if i < 0 then CHR ''-'' # str_nat (nat (- i)) else str_nat (nat i))"

text \<open>The response of \<^verbatim>\<open>requests.post\<close>; its \<^verbatim>\<open>text\<close> attribute is \<open>body_text\<close> here.\<close>

record response =
  status_code :: int
  body_text :: string

definition webhook_payload :: "string \<Rightarrow> string \<Rightarrow> string \<Rightarrow> bool \<Rightarrow> pyval" where
  "webhook_payload message username icon_emoji markdown =
     PDict [(''text'', PStr message), (''username'', PStr username),
            (''icon_emoji'', PStr icon_emoji), (''mrkdwn'', PBool markdown)]"

text \<open>
  \<^verbatim>\<open>send_slack_webhook_message\<close> (lines 8-30). \<open>post\<close> is \<^verbatim>\<open>requests.post\<close>: it returns a
  response or raises (no connection, say).
\<close>

definition send_slack_webhook_message ::
  "(string \<Rightarrow> pyval \<Rightarrow> pyexc + response) \<Rightarrow> string \<Rightarrow> string \<Rightarrow> string \<Rightarrow> string \<Rightarrow> bool
     \<Rightarrow> pyexc + response" where
  "send_slack_webhook_message post webhook_url message username icon_emoji markdown =
     ebind (post webhook_url (webhook_payload message username icon_emoji markdown)) (\<lambda>resp.
       if status_code resp \<noteq> 200 then
         Inl (Exception (''Request to Slack returned an error '' @ str_int (status_code resp)
                @ '', the response is:'' @ [CHR 0x0A] @ body_text resp))
       else Inr resp)"

section \<open>The polling loop\<close>

text \<open>
  \<^verbatim>\<open>query_marketing_requests\<close> (NotionAPI.py, lines 83-90) after the HTTP exchange:
  \<open>http_result\<close> is the decoded body, or what \<^verbatim>\<open>requests.post\<close>, \<^verbatim>\<open>raise_for_status\<close> or
  \<^verbatim>\<open>response.json\<close> raised.
\<close>

definition query_marketing_requests ::
  "(string \<Rightarrow> datetime option) \<Rightarrow> pyexc + pyval \<Rightarrow> pyexc + MarketingRequestCollection" where
  "query_marketing_requests fromisoformat http_result =
     ebind http_result (\<lambda>data.
     ebind (from_record_map fromisoformat data) (\<lambda>marketing_requests.
     ebind (list_sort (requests marketing_requests)) (\<lambda>sorted_reqs.
       Inr (marketing_requests \<lparr> requests := sorted_reqs \<rparr>))))"

text \<open>
  The process state of SlackFlask.py: the global \<^verbatim>\<open>notion_data\<close> (initially \<^verbatim>\<open>None\<close>) and
  what the loop printed.
\<close>

datatype printed = Updated MarketingRequestCollection | Error_fetching pyexc

record app_state =
  notion_data :: "MarketingRequestCollection option"
  stdout :: "printed list"

definition initial_state :: app_state where
  "initial_state = \<lparr> notion_data = None, stdout = [] \<rparr>"

text \<open>
  One pass through the body of \<^verbatim>\<open>while True\<close> (lines 33-39), given what the query of this
  pass returned or raised. \<^verbatim>\<open>time.sleep(60)\<close> changes no state.
\<close>

definition poll_cycle :: "pyexc + MarketingRequestCollection \<Rightarrow> app_state \<Rightarrow> pyexc + app_state" where
  "poll_cycle query_result st =
     (case query_result of
        Inr c \<Rightarrow> Inr (st \<lparr> notion_data := Some c, stdout := stdout st @ [Updated c] \<rparr>)
      | Inl e \<Rightarrow>
          if is_Exception e then Inr (st \<lparr> stdout := stdout st @ [Error_fetching e] \<rparr>)
          else Inl e)"

text \<open>
  \<^verbatim>\<open>fetch_notion_data\<close> (lines 22-39): \<open>query n\<close> is what \<^verbatim>\<open>query_marketing_requests\<close>
  returns or raises in pass \<open>n\<close>.
  The loop has no exit; it ends only when a pass lets an exception through, and the
  result is then that exception with the state it left. \<open>None\<close> is a loop that runs forever.
\<close>

partial_function (option) fetch_notion_data ::
  "(nat \<Rightarrow> pyexc + MarketingRequestCollection) \<Rightarrow> nat \<Rightarrow> app_state \<Rightarrow> (pyexc \<times> app_state) option" where
  "fetch_notion_data query n st =
     (case poll_cycle (query n) st of
        Inl e \<Rightarrow> Some (e, st)
      | Inr st' \<Rightarrow> fetch_notion_data query (Suc n) st')"

text \<open>The state after the first \<open>n\<close> passes, while none of them lets an exception through.\<close>

fun state_after :: "(nat \<Rightarrow> pyexc + MarketingRequestCollection) \<Rightarrow> nat \<Rightarrow> app_state \<Rightarrow> pyexc + app_state" where
  "state_after query 0 st = Inr st"
| "state_after query (Suc n) st =
     (case state_after query n st of
        Inl e \<Rightarrow> Inl e
      | Inr st' \<Rightarrow> poll_cycle (query n) st')"

text \<open>
  What the handler of \<^verbatim>\<open>/getbacklog\<close> reads (SlackFlask.py, line 50): the global, and its
  requests of status \<^verbatim>\<open>"Not Started"\<close>. Before the first successful pass the global is
  \<^verbatim>\<open>None\<close> and the attribute lookup raises.
\<close>

definition backlog_requests :: "app_state \<Rightarrow> pyexc + MarketingRequest list" where
  "backlog_requests st =
     (case notion_data st of
        None \<Rightarrow> Inl AttributeError
      | Some c \<Rightarrow> Inr (fetch_requests_by_status c ''Not Started''))"

section \<open>Definitions used to state the properties\<close>

text \<open>
  A date is not later than another when the two can be ordered and the second is not
  less than the first. Two requests are in key order when both sort keys exist and the
  first key is at most the second: a smaller status rank, or the same rank and a date
  that is not later.
\<close>

definition date_le :: "datetime \<Rightarrow> datetime \<Rightarrow> bool" where
  "date_le a b = (dt_lt b a = Inr False)"

definition key_le :: "MarketingRequest \<Rightarrow> MarketingRequest \<Rightarrow> bool" where
  "key_le a b =
     (\<exists>ra da rb db.
        MarketingRequest_sort_key a = Inr (ra, da) \<and>
        MarketingRequest_sort_key b = Inr (rb, db) \<and>
        (ra < rb \<or> (ra = rb \<and> date_le da db)))"

text \<open>Requests used as concrete inputs.\<close>

definition posted_2030 :: MarketingRequest where
  "posted_2030 =
     \<lparr> req_id = PStr ''a'', title = PStr ''Launch'', event = PNone, content_type = PNone,
       status = PStr ''Posted'', content_summary = PNone, post_date = Some (datetime 2030 1 1),
       final_post = PNone, visuals = PNone \<rparr>"

definition no_status_no_date :: MarketingRequest where
  "no_status_no_date =
     \<lparr> req_id = PStr ''b'', title = PStr ''Idea'', event = PNone, content_type = PNone,
       status = PNone, content_summary = PNone, post_date = None,
       final_post = PNone, visuals = PNone \<rparr>"

definition archived_2024_09_02 :: MarketingRequest where
  "archived_2024_09_02 =
     \<lparr> req_id = PStr ''c'', title = PStr ''Old'', event = PNone, content_type = PNone,
       status = PStr ''Archived'', content_summary = PNone,
       post_date = Some (datetime 2024 9 2), final_post = PNone, visuals = PNone \<rparr>"

definition posted_undated :: MarketingRequest where
  "posted_undated =
     \<lparr> req_id = PStr ''d'', title = PStr ''Draft'', event = PNone, content_type = PNone,
       status = PStr ''Posted'', content_summary = PNone, post_date = None,
       final_post = PNone, visuals = PNone \<rparr>"

text \<open>
  A posted request whose date is \<^verbatim>\<open>fromisoformat("2025-02-03T00:00:00+00:00")\<close>, and one
  whose status is the list \<^verbatim>\<open>["Posted"]\<close>, as \<^verbatim>\<open>from_notion_page\<close> stores it for the
  property \<^verbatim>\<open>[[["Posted"]]]\<close>.
\<close>

definition posted_aware :: MarketingRequest where
  "posted_aware =
     \<lparr> req_id = PStr ''e'', title = PStr ''Live'', event = PNone, content_type = PNone,
       status = PStr ''Posted'', content_summary = PNone,
       post_date = Some (Datetime 2025 2 3 0 0 0 0 (Some 0)),
       final_post = PNone, visuals = PNone \<rparr>"

definition list_status :: MarketingRequest where
  "list_status =
     \<lparr> req_id = PStr ''f'', title = PStr ''Nested'', event = PNone, content_type = PNone,
       status = PList [PStr ''Posted''], content_summary = PNone,
       post_date = Some (datetime 2024 9 1), final_post = PNone, visuals = PNone \<rparr>"

definition props_list_status :: "(string \<times> pyval) list" where
  "props_list_status =
     [(''title'', PList [PList [PStr ''Nested'']]),
      (''nSLy'', PList [PList [PList [PStr ''Posted'']]])]"

text \<open>
  Pages and record maps used as concrete inputs. \<open>date_property\<close> is the rollup shape
  the comment at line 84 shows, \<^verbatim>\<open>[["*", [["d", {"type": "date", "start_date": ...}]]]]\<close>.
\<close>

definition date_property :: "pyval \<Rightarrow> pyval" where
  "date_property start =
     PList [PList [PStr ''*'', PList [PList [PStr ''d'',
       PDict [(''type'', PStr ''date''), (''start_date'', start)]]]]]"

definition page_of :: "string \<Rightarrow> pyval \<Rightarrow> pyval" where
  "page_of i properties = PDict [(''id'', PStr i), (''properties'', properties)]"



definition props_no_date :: "(string \<times> pyval) list" where
  "props_no_date =
     [(''title'', PList [PList [PStr ''Launch'']]), (''nSLy'', PList [PList [PStr ''Posted'']])]"

definition props_malformed_date :: "(string \<times> pyval) list" where
  "props_malformed_date = [(''{Rrz'', PStr ''soon'')]"

definition props_empty_start :: "(string \<times> pyval) list" where
  "props_empty_start = [(''{Rrz'', date_property (PStr []))]"

definition props_bad_scalars :: "(string \<times> pyval) list" where
  "props_bad_scalars =
     [(''title'', PList [PList [PStr []]]), (''aJ@j'', PList []), (''nSLy'', PStr ''Posted''),
      (''[B|e'', PList [PList []])]"

definition props_untitled :: "(string \<times> pyval) list" where
  "props_untitled = [(''nSLy'', PList [PList [PStr ''Drafted'']])]"

definition props_empty_title :: "(string \<times> pyval) list" where
  "props_empty_title = [(''title'', PList [PList [PStr []]])]"

definition props_flat_title :: "(string \<times> pyval) list" where
  "props_flat_title = [(''title'', PStr ''Launch'')]"

definition props_in_progress :: "(string \<times> pyval) list" where
  "props_in_progress =
     [(''title'', PList [PList [PStr ''Teaser'']]),
      (''nSLy'', PList [PList [PStr ''In Progress'']]),
      (''{Rrz'', date_property (PStr ''2025-02-03''))]"



text \<open>A query that succeeds in the first pass and raises an HTTP error in every later one.\<close>

definition succeed_then_fail :: "nat \<Rightarrow> pyexc + MarketingRequestCollection" where
  "succeed_then_fail n = (if n = 0 then Inr \<lparr> requests = [] \<rparr> else Inl HTTPError)"

section \<open>Basic facts\<close>

lemma ebind_Inr [simp]: "ebind (Inr x) f = f x"
  by (simp add: ebind_def)

lemma ebind_Inl [simp]: "ebind (Inl e) f = Inl e"
  by (simp add: ebind_def)

section \<open>The sort key\<close>

lemma sort_key_hashable:
  "hashable (status r) \<Longrightarrow>
     \<exists>rk. MarketingRequest_sort_key r =
        Inr (rk, (case post_date r of None \<Rightarrow> datetime 2024 9 1 | Some d \<Rightarrow> d))"
  by (cases "status r") (simp_all add: MarketingRequest_sort_key_def)

lemma sort_key_unhashable:
  "\<not> hashable (status r) \<Longrightarrow> MarketingRequest_sort_key r = Inl TypeError"
  by (cases "status r") (simp_all add: MarketingRequest_sort_key_def)

lemma ranked_map_of: "ranked (PStr s) = (map_of STATUS_ORDER s \<noteq> None)"
  by (simp add: map_of_eq_None_iff)

lemma sort_key_rank_finite:
  assumes "MarketingRequest_sort_key r = Inr (rk, d)"
  shows "(rk \<noteq> \<infinity>) = ranked (status r)"
proof (cases "status r")
  case (PStr s)
  with assms have "rk = (case map_of STATUS_ORDER s of None \<Rightarrow> \<infinity> | Some n \<Rightarrow> enat n)"
    by (simp add: MarketingRequest_sort_key_def)
  then show ?thesis unfolding PStr ranked_map_of by (cases "map_of STATUS_ORDER s") simp_all
qed (use assms in \<open>simp_all add: MarketingRequest_sort_key_def split: if_splits\<close>)

text \<open>The order of two dates: what \<^verbatim>\<open><\<close> and \<^verbatim>\<open>==\<close> give together.\<close>

lemma dt_lt_True:
  "dt_lt a b = Inr True \<Longrightarrow> \<not> dt_eq a b \<and> \<not> dt_eq b a \<and> dt_lt b a = Inr False"
  by (cases "utcoffset a"; cases "utcoffset b") (auto simp: dt_lt_def dt_eq_def)

lemma dt_eq_not_lt: "dt_eq a b \<Longrightarrow> dt_lt a b = Inr False \<and> dt_lt b a = Inr False"
  by (cases "utcoffset a"; cases "utcoffset b") (auto simp: dt_lt_def dt_eq_def)

lemma dt_lt_mixed:
  "(utcoffset a = None) \<noteq> (utcoffset b = None) \<Longrightarrow> dt_lt a b = Inl TypeError \<and> \<not> dt_eq a b"
  by (cases "utcoffset a"; cases "utcoffset b") (auto simp: dt_lt_def dt_eq_def)

lemma date_le_trans: "date_le a b \<Longrightarrow> date_le b c \<Longrightarrow> date_le a c"
  unfolding date_le_def
  by (cases "utcoffset a"; cases "utcoffset b"; cases "utcoffset c")
     (auto simp: dt_lt_def not_less intro: order_trans)

lemma lt_keys:
  "MarketingRequest_sort_key a = Inr ka \<Longrightarrow> MarketingRequest_sort_key b = Inr kb \<Longrightarrow>
     MarketingRequest_lt a b = tuple_lt ka kb"
  by (simp add: MarketingRequest_lt_def)

text \<open>A comparison that returns puts the two requests in key order, one way or the other.\<close>

lemma lt_Inr_key_le:
  assumes "MarketingRequest_lt a b = Inr t"
  shows "if t then key_le a b else key_le b a"
proof -
  from assms obtain ka kb where k: "MarketingRequest_sort_key a = Inr ka"
      "MarketingRequest_sort_key b = Inr kb" "tuple_lt ka kb = Inr t"
    unfolding MarketingRequest_lt_def ebind_def by (auto split: sum.splits)
  obtain ra da rb db where p: "ka = (ra, da)" "kb = (rb, db)"
    by (cases ka; cases kb) blast
  show ?thesis
  proof (cases "ra = rb")
    case False
    with k(3) p have "t = (ra < rb)" by (simp add: tuple_lt_def)
    with False have "if t then ra < rb else rb < ra" by auto
    with k(1,2) p show ?thesis unfolding key_le_def by (cases t) auto
  next
    case True
    show ?thesis
    proof (cases "dt_eq da db")
      case eq: True
      with k(3) p \<open>ra = rb\<close> have "\<not> t" by (simp add: tuple_lt_def)
      moreover from eq have "date_le db da" unfolding date_le_def by (simp add: dt_eq_not_lt)
      ultimately show ?thesis using k(1,2) p \<open>ra = rb\<close> unfolding key_le_def by auto
    next
      case neq: False
      with k(3) p \<open>ra = rb\<close> have lt: "dt_lt da db = Inr t" by (simp add: tuple_lt_def)
      have "if t then date_le da db else date_le db da"
        using lt dt_lt_True[of da db] unfolding date_le_def by (cases t) auto
      with k(1,2) p \<open>ra = rb\<close> show ?thesis unfolding key_le_def by (cases t) auto
    qed
  qed
qed

text \<open>
  C1. For two requests whose statuses can be hashed (\<^verbatim>\<open>None\<close>, a string, a number, a
  boolean), both sort keys exist, the date component being the post date or, for a
  missing post date, the naive 2024-09-01. A request whose status is a key of
  \<^verbatim>\<open>STATUS_ORDER\<close> is less than, and so sorts before, every request whose status is not.
  Of two requests of equal status rank whose dates can be ordered (both naive or both
  aware) the one with the earlier date is less than the other; when one date is naive and
  the other aware, the comparison raises TypeError.
\<close>

theorem sort_key_order:
  assumes "hashable (status a)" and "hashable (status b)"
  shows "\<exists>ra rb.
           MarketingRequest_sort_key a =
             Inr (ra, case post_date a of None \<Rightarrow> datetime 2024 9 1 | Some d \<Rightarrow> d) \<and>
           MarketingRequest_sort_key b =
             Inr (rb, case post_date b of None \<Rightarrow> datetime 2024 9 1 | Some d \<Rightarrow> d) \<and>
           (ranked (status a) \<and> \<not> ranked (status b) \<longrightarrow>
              ra < rb \<and> MarketingRequest_lt a b = Inr True \<and>
              MarketingRequest_lt b a = Inr False) \<and>
           (ra = rb \<and>
            dt_lt (case post_date a of None \<Rightarrow> datetime 2024 9 1 | Some d \<Rightarrow> d)
                  (case post_date b of None \<Rightarrow> datetime 2024 9 1 | Some d \<Rightarrow> d) = Inr True \<longrightarrow>
              MarketingRequest_lt a b = Inr True \<and> MarketingRequest_lt b a = Inr False) \<and>
           (ra = rb \<and>
            (utcoffset (case post_date a of None \<Rightarrow> datetime 2024 9 1 | Some d \<Rightarrow> d) = None)
              \<noteq> (utcoffset (case post_date b of None \<Rightarrow> datetime 2024 9 1 | Some d \<Rightarrow> d) = None)
              \<longrightarrow> MarketingRequest_lt a b = Inl TypeError)"
proof -
  let ?da = "case post_date a of None \<Rightarrow> datetime 2024 9 1 | Some d \<Rightarrow> d"
  let ?db = "case post_date b of None \<Rightarrow> datetime 2024 9 1 | Some d \<Rightarrow> d"
  from assms(1) obtain ra where ka: "MarketingRequest_sort_key a = Inr (ra, ?da)"
    using sort_key_hashable by blast
  from assms(2) obtain rb where kb: "MarketingRequest_sort_key b = Inr (rb, ?db)"
    using sort_key_hashable by blast
  have ab: "MarketingRequest_lt a b = tuple_lt (ra, ?da) (rb, ?db)"
    using ka kb by (rule lt_keys)
  have ba: "MarketingRequest_lt b a = tuple_lt (rb, ?db) (ra, ?da)"
    using kb ka by (rule lt_keys)
  have 1: "ra < rb \<and> MarketingRequest_lt a b = Inr True \<and> MarketingRequest_lt b a = Inr False"
    if "ranked (status a)" "\<not> ranked (status b)"
  proof -
    from that sort_key_rank_finite[OF ka] sort_key_rank_finite[OF kb]
    have "ra \<noteq> \<infinity>" "rb = \<infinity>" by simp_all
    then have "ra < rb" by (simp add: less_top[symmetric])
    then show ?thesis unfolding ab ba by (auto simp: tuple_lt_def)
  qed
  have 2: "MarketingRequest_lt a b = Inr True \<and> MarketingRequest_lt b a = Inr False"
    if "ra = rb" "dt_lt ?da ?db = Inr True"
    unfolding ab ba using that dt_lt_True[OF that(2)] by (simp add: tuple_lt_def)
  have 3: "MarketingRequest_lt a b = Inl TypeError"
    if "ra = rb" "(utcoffset ?da = None) \<noteq> (utcoffset ?db = None)"
    unfolding ab using that(1) dt_lt_mixed[OF that(2)] by (simp add: tuple_lt_def)
  have c1: "ranked (status a) \<and> \<not> ranked (status b) \<longrightarrow>
              ra < rb \<and> MarketingRequest_lt a b = Inr True \<and>
              MarketingRequest_lt b a = Inr False"
    using 1 by blast
  have c2: "ra = rb \<and> dt_lt ?da ?db = Inr True \<longrightarrow>
              MarketingRequest_lt a b = Inr True \<and> MarketingRequest_lt b a = Inr False"
    using 2 by blast
  have c3: "ra = rb \<and> (utcoffset ?da = None) \<noteq> (utcoffset ?db = None) \<longrightarrow>
              MarketingRequest_lt a b = Inl TypeError"
    using 3 by blast
  from c2 c3 have "(ra = rb \<and> dt_lt ?da ?db = Inr True \<longrightarrow>
              MarketingRequest_lt a b = Inr True \<and> MarketingRequest_lt b a = Inr False) \<and>
           (ra = rb \<and> (utcoffset ?da = None) \<noteq> (utcoffset ?db = None) \<longrightarrow>
              MarketingRequest_lt a b = Inl TypeError)"
    by (rule conjI)
  with c1 have "(ranked (status a) \<and> \<not> ranked (status b) \<longrightarrow>
              ra < rb \<and> MarketingRequest_lt a b = Inr True \<and>
              MarketingRequest_lt b a = Inr False) \<and>
           (ra = rb \<and> dt_lt ?da ?db = Inr True \<longrightarrow>
              MarketingRequest_lt a b = Inr True \<and> MarketingRequest_lt b a = Inr False) \<and>
           (ra = rb \<and> (utcoffset ?da = None) \<noteq> (utcoffset ?db = None) \<longrightarrow>
              MarketingRequest_lt a b = Inl TypeError)"
    by (rule conjI)
  with kb have "MarketingRequest_sort_key b = Inr (rb, ?db) \<and>
           (ranked (status a) \<and> \<not> ranked (status b) \<longrightarrow>
              ra < rb \<and> MarketingRequest_lt a b = Inr True \<and>
              MarketingRequest_lt b a = Inr False) \<and>
           (ra = rb \<and> dt_lt ?da ?db = Inr True \<longrightarrow>
              MarketingRequest_lt a b = Inr True \<and> MarketingRequest_lt b a = Inr False) \<and>
           (ra = rb \<and> (utcoffset ?da = None) \<noteq> (utcoffset ?db = None) \<longrightarrow>
              MarketingRequest_lt a b = Inl TypeError)"
    by (rule conjI)
  with ka have "MarketingRequest_sort_key a = Inr (ra, ?da) \<and>
           MarketingRequest_sort_key b = Inr (rb, ?db) \<and>
           (ranked (status a) \<and> \<not> ranked (status b) \<longrightarrow>
              ra < rb \<and> MarketingRequest_lt a b = Inr True \<and>
              MarketingRequest_lt b a = Inr False) \<and>
           (ra = rb \<and> dt_lt ?da ?db = Inr True \<longrightarrow>
              MarketingRequest_lt a b = Inr True \<and> MarketingRequest_lt b a = Inr False) \<and>
           (ra = rb \<and> (utcoffset ?da = None) \<noteq> (utcoffset ?db = None) \<longrightarrow>
              MarketingRequest_lt a b = Inl TypeError)"
    by (rule conjI)
  then show ?thesis by (intro exI)
qed

text \<open>
  A posted request dated 2030 comes before a request with no status and no date; that
  request, dated 2024-09-01 by the fallback, comes before one of unranked status dated
  2024-09-02; and a posted request without a date cannot be compared with a posted
  request whose date is aware.
\<close>

theorem sort_key_order_witness:
  "hashable (status posted_2030) \<and> hashable (status no_status_no_date) \<and>
   hashable (status archived_2024_09_02) \<and> hashable (status posted_undated) \<and>
   hashable (status posted_aware) \<and>
   MarketingRequest_lt posted_2030 no_status_no_date = Inr True \<and>
   MarketingRequest_lt no_status_no_date posted_2030 = Inr False \<and>
   MarketingRequest_lt no_status_no_date archived_2024_09_02 = Inr True \<and>
   MarketingRequest_lt archived_2024_09_02 no_status_no_date = Inr False \<and>
   MarketingRequest_lt posted_undated posted_aware = Inl TypeError"
proof -
  have h: "hashable (status posted_2030)" "hashable (status no_status_no_date)"
    "hashable (status archived_2024_09_02)" "hashable (status posted_undated)"
    "hashable (status posted_aware)"
    by (simp_all add: posted_2030_def no_status_no_date_def archived_2024_09_02_def
        posted_undated_def posted_aware_def)
  have r: "ranked (status posted_2030)" "\<not> ranked (status no_status_no_date)"
    by (simp_all add: posted_2030_def no_status_no_date_def STATUS_ORDER_def)
  have k: "MarketingRequest_sort_key no_status_no_date = Inr (\<infinity>, datetime 2024 9 1)"
    "MarketingRequest_sort_key archived_2024_09_02 = Inr (\<infinity>, datetime 2024 9 2)"
    "MarketingRequest_sort_key posted_undated = Inr (enat 4, datetime 2024 9 1)"
    "MarketingRequest_sort_key posted_aware = Inr (enat 4, Datetime 2025 2 3 0 0 0 0 (Some 0))"
    by (simp_all add: no_status_no_date_def archived_2024_09_02_def posted_undated_def
        posted_aware_def MarketingRequest_sort_key_def STATUS_ORDER_def)
  have d: "dt_lt (datetime 2024 9 1) (datetime 2024 9 2) = Inr True"
    "utcoffset (datetime 2024 9 1) = None"
    "utcoffset (Datetime 2025 2 3 0 0 0 0 (Some 0)) = Some 0"
    by (simp_all add: dt_lt_def datetime_def)
  have 1: "MarketingRequest_lt posted_2030 no_status_no_date = Inr True \<and>
           MarketingRequest_lt no_status_no_date posted_2030 = Inr False"
    using sort_key_order[OF h(1) h(2)] r by blast
  have 2: "MarketingRequest_lt no_status_no_date archived_2024_09_02 = Inr True \<and>
           MarketingRequest_lt archived_2024_09_02 no_status_no_date = Inr False"
    using sort_key_order[OF h(2) h(3)] k(1,2) d(1)
    by (auto simp: no_status_no_date_def archived_2024_09_02_def)
  have 3: "MarketingRequest_lt posted_undated posted_aware = Inl TypeError"
    using sort_key_order[OF h(4) h(5)] k(3,4) d(2,3)
    by (auto simp: posted_undated_def posted_aware_def)
  from h 1 2 3 show ?thesis by simp
qed

text \<open>
  C1, counterexample. The conditions are needed. A posted request and one whose status
  is the list \<^verbatim>\<open>["Posted"]\<close>, which \<^verbatim>\<open>from_notion_page\<close> builds from the status property
  \<^verbatim>\<open>[[["Posted"]]]\<close>: the first status is ranked and the second is not, and comparing
  them raises TypeError, the list being unhashable. Two posted requests, one without a
  date and one with an aware date: the ranks are equal, and comparing them raises
  TypeError.
\<close>

theorem sort_key_order_counterexample:
  "from_notion_page fromisoformat_date (page_of ''f'' (PDict props_list_status)) = Inr list_status \<and>
   ranked (status posted_2030) \<and> \<not> ranked (status list_status) \<and>
   MarketingRequest_lt posted_2030 list_status = Inl TypeError \<and>
   MarketingRequest_lt list_status posted_2030 = Inl TypeError \<and>
   status posted_undated = status posted_aware \<and> post_date posted_undated = None \<and>
   MarketingRequest_lt posted_undated posted_aware = Inl TypeError \<and>
   MarketingRequest_lt posted_aware posted_undated = Inl TypeError"
  by code_simp

section \<open>Mapping a page\<close>

text \<open>Every exception the body of the \<^verbatim>\<open>try\<close> can raise is caught by \<^verbatim>\<open>except Exception\<close>.\<close>

lemma py_get_exc: "py_get v k d = Inl e \<Longrightarrow> is_Exception e"
  by (cases v) auto

lemma py_getitem_exc: "py_getitem v i = Inl e \<Longrightarrow> is_Exception e"
  by (cases v) (auto split: if_splits)

lemma py_getitem_key_exc: "py_getitem_key v k = Inl e \<Longrightarrow> is_Exception e"
  by (cases v) (auto split: option.splits)

lemma py_fromisoformat_exc: "py_fromisoformat f v = Inl e \<Longrightarrow> is_Exception e"
  by (cases v) (auto split: option.splits)

lemma start_date_of_exc: "start_date_of p = Inl e \<Longrightarrow> is_Exception e"
  unfolding start_date_of_def ebind_def
  by (auto split: sum.splits dest: py_get_exc py_getitem_exc py_getitem_key_exc)

lemma post_date_try_exc: "post_date_try f p = Inl e \<Longrightarrow> is_Exception e"
  unfolding post_date_try_def ebind_def
  by (auto split: sum.splits if_splits dest: start_date_of_exc py_fromisoformat_exc)

lemma post_date_of_dict:
  "post_date_of f (PDict props) =
     (if ''{Rrz'' \<in> set (map fst props) then
        (case post_date_try f (PDict props) of Inr d \<Rightarrow> Inr d | Inl e \<Rightarrow> Inr (datetime 2024 9 1))
      else Inr (datetime 2024 9 1))"
proof (cases "post_date_try f (PDict props)")
  case (Inl e)
  then have "is_Exception e" by (rule post_date_try_exc)
  with Inl show ?thesis by (simp add: post_date_of_def)
next
  case (Inr d)
  then show ?thesis by (simp add: post_date_of_def)
qed

lemma post_date_of_dict_Inr: "\<exists>d. post_date_of f (PDict props) = Inr d"
  by (cases "post_date_try f (PDict props)") (simp_all add: post_date_of_dict del: split_paired_Ex)

lemma get_first_shape:
  "get_first (PDict props) k =
     (case map_of props k of
        Some (PList (PList (x # xs) # ys)) \<Rightarrow> Inr x
      | _ \<Rightarrow> Inr PNone)"
  by (simp add: get_first_def split: option.splits pyval.splits list.splits)

lemma get_first_dict_Inr: "\<exists>v. get_first (PDict props) k = Inr v"
  by (simp add: get_first_shape split: option.splits pyval.splits list.splits)

lemma get_first_no_shape:
  assumes "\<forall>v. map_of props k = Some v \<longrightarrow> \<not> list_of_lists_shape v"
  shows "get_first (PDict props) k = Inr PNone"
  using assms by (auto simp: get_first_shape split: option.splits pyval.splits list.splits)

text \<open>
  When \<^verbatim>\<open>page.get("properties", {})\<close> is a dict, every step of \<^verbatim>\<open>from_notion_page\<close> returns
  and the request is built from the results of the steps.
\<close>

lemma py_get_Inr_dict: "py_get page k d = Inr v \<Longrightarrow> \<exists>pg. page = PDict pg"
  by (cases page) auto

lemma from_notion_page_dict:
  assumes "py_get page ''properties'' (PDict []) = Inr (PDict props)"
  shows "\<exists>t ev ct st cs pd i.
           get_first (PDict props) ''title'' = Inr t \<and>
           get_first (PDict props) ''>zXz'' = Inr ev \<and>
           get_first (PDict props) ''aJ@j'' = Inr ct \<and>
           get_first (PDict props) ''nSLy'' = Inr st \<and>
           get_first (PDict props) ''[B|e'' = Inr cs \<and>
           post_date_of f (PDict props) = Inr pd \<and>
           from_notion_page f page =
             Inr \<lparr> req_id = i, title = or_empty t, event = ev, content_type = ct, status = st,
                   content_summary = cs, post_date = Some pd, final_post = PNone,
                   visuals = PNone \<rparr>"
proof -
  obtain pg where pg: "page = PDict pg" using assms py_get_Inr_dict by blast
  obtain t where t: "get_first (PDict props) ''title'' = Inr t" using get_first_dict_Inr by blast
  obtain ev where ev: "get_first (PDict props) ''>zXz'' = Inr ev" using get_first_dict_Inr by blast
  obtain ct where ct: "get_first (PDict props) ''aJ@j'' = Inr ct" using get_first_dict_Inr by blast
  obtain st where st: "get_first (PDict props) ''nSLy'' = Inr st" using get_first_dict_Inr by blast
  obtain cs where cs: "get_first (PDict props) ''[B|e'' = Inr cs" using get_first_dict_Inr by blast
  obtain pd where pd: "post_date_of f (PDict props) = Inr pd" using post_date_of_dict_Inr by blast
  obtain i where i: "py_get page ''id'' PNone = Inr i" by (simp add: pg)
  have "from_notion_page f page =
             Inr \<lparr> req_id = i, title = or_empty t, event = ev, content_type = ct, status = st,
                   content_summary = cs, post_date = Some pd, final_post = PNone,
                   visuals = PNone \<rparr>"
    unfolding from_notion_page_def by (simp only: assms t ev ct st cs pd i ebind_Inr)
  with t ev ct st cs pd show ?thesis by blast
qed

lemma from_notion_page_post_date: "from_notion_page f page = Inr r \<Longrightarrow> \<exists>d. post_date r = Some d"
  unfolding from_notion_page_def ebind_def by (auto split: sum.splits simp del: split_paired_Ex)

lemma from_notion_page_title: "from_notion_page f page = Inr r \<Longrightarrow> title r \<noteq> PNone"
  unfolding from_notion_page_def ebind_def by (auto split: sum.splits if_splits simp: or_empty_def)

lemma post_date_fallback:
  assumes "''{Rrz'' \<notin> set (map fst props) \<or>
           (\<exists>e. start_date_of (PDict props) = Inl e) \<or>
           (\<exists>v. start_date_of (PDict props) = Inr v \<and> \<not> truthy v) \<or>
           (\<exists>v e. start_date_of (PDict props) = Inr v \<and> py_fromisoformat f v = Inl e)"
  shows "post_date_of f (PDict props) = Inr (datetime 2024 9 1)"
  using assms by (auto simp: post_date_of_dict post_date_try_def)

text \<open>
  C3. For every page whose \<^verbatim>\<open>properties\<close> entry is absent or a dict,
  \<^verbatim>\<open>from_notion_page\<close> returns a request whose post date is set, never \<^verbatim>\<open>None\<close>; and when
  the key \<^verbatim>\<open>{Rrz\<close> is missing, or the path \<^verbatim>\<open>[0][1][0][1].get("start_date")\<close> below it
  raises, or the start date is empty or absent, or it is not an ISO date, the post date is
  2024-09-01.
\<close>

theorem from_notion_page_fallback_date:
  assumes "py_get page ''properties'' (PDict []) = Inr (PDict props)"
  shows "\<exists>r d. from_notion_page f page = Inr r \<and> post_date r = Some d \<and>
           (''{Rrz'' \<notin> set (map fst props) \<or>
            (\<exists>e. start_date_of (PDict props) = Inl e) \<or>
            (\<exists>v. start_date_of (PDict props) = Inr v \<and> \<not> truthy v) \<or>
            (\<exists>v e. start_date_of (PDict props) = Inr v \<and> py_fromisoformat f v = Inl e)
            \<longrightarrow> d = datetime 2024 9 1)"
proof -
  from from_notion_page_dict[OF assms, of f] obtain r pd where
    r: "from_notion_page f page = Inr r" "post_date r = Some pd"
       "post_date_of f (PDict props) = Inr pd"
    by fastforce
  have "pd = datetime 2024 9 1"
    if "''{Rrz'' \<notin> set (map fst props) \<or>
            (\<exists>e. start_date_of (PDict props) = Inl e) \<or>
            (\<exists>v. start_date_of (PDict props) = Inr v \<and> \<not> truthy v) \<or>
            (\<exists>v e. start_date_of (PDict props) = Inr v \<and> py_fromisoformat f v = Inl e)"
    using post_date_fallback[OF that] r(3) by simp
  with r show ?thesis by blast
qed

text \<open>
  Three pages with a dict of properties: one without the key, one whose value under the
  key is a string, one whose start date is the empty string. Each is mapped to a request
  dated 2024-09-01.
\<close>

theorem from_notion_page_fallback_date_witness:
  "py_get (page_of ''p1'' (PDict props_no_date)) ''properties'' (PDict []) = Inr (PDict props_no_date) \<and>
   ''{Rrz'' \<notin> set (map fst props_no_date) \<and>
   start_date_of (PDict props_malformed_date) = Inl IndexError \<and>
   start_date_of (PDict props_empty_start) = Inr (PStr []) \<and>
   (\<exists>r. from_notion_page fromisoformat_date (page_of ''p1'' (PDict props_no_date)) = Inr r \<and>
        post_date r = Some (datetime 2024 9 1)) \<and>
   (\<exists>r. from_notion_page fromisoformat_date (page_of ''p2'' (PDict props_malformed_date)) = Inr r \<and>
        post_date r = Some (datetime 2024 9 1)) \<and>
   (\<exists>r. from_notion_page fromisoformat_date (page_of ''p3'' (PDict props_empty_start)) = Inr r \<and>
        post_date r = Some (datetime 2024 9 1))"
proof -
  have 1: "py_get (page_of ''p1'' (PDict props_no_date)) ''properties'' (PDict []) = Inr (PDict props_no_date)"
    by (simp add: page_of_def)
  have 2: "py_get (page_of ''p2'' (PDict props_malformed_date)) ''properties'' (PDict []) = Inr (PDict props_malformed_date)"
    by (simp add: page_of_def)
  have 3: "py_get (page_of ''p3'' (PDict props_empty_start)) ''properties'' (PDict []) = Inr (PDict props_empty_start)"
    by (simp add: page_of_def)
  have a: "''{Rrz'' \<notin> set (map fst props_no_date)" by (simp add: props_no_date_def)
  have b: "start_date_of (PDict props_malformed_date) = Inl IndexError"
    by (simp add: start_date_of_def props_malformed_date_def)
  have c: "start_date_of (PDict props_empty_start) = Inr (PStr [])"
    by (simp add: start_date_of_def props_empty_start_def date_property_def)
  show ?thesis
    using from_notion_page_fallback_date[OF 1, of fromisoformat_date]
      from_notion_page_fallback_date[OF 2, of fromisoformat_date]
      from_notion_page_fallback_date[OF 3, of fromisoformat_date] 1 a b c
    by (simp del: split_paired_Ex)
qed

text \<open>
  C3, counterexample. The condition on \<^verbatim>\<open>properties\<close> is needed: on a page whose
  \<^verbatim>\<open>properties\<close> entry is \<^verbatim>\<open>None\<close> the date path is missing, and \<^verbatim>\<open>properties.get\<close> in
  \<^verbatim>\<open>get_first("title")\<close> raises AttributeError outside the \<^verbatim>\<open>try\<close>, so no request is
  returned.
\<close>

theorem from_notion_page_fallback_date_counterexample:
  "from_notion_page fromisoformat_date (page_of ''p4'' PNone) = Inl AttributeError \<and>
   start_date_of PNone = Inl TypeError"
  by (simp add: from_notion_page_def get_first_def page_of_def start_date_of_def)

text \<open>
  C4. For every page whose \<^verbatim>\<open>properties\<close> entry is absent or a dict,
  \<^verbatim>\<open>from_notion_page\<close> raises nothing and returns a request in which each of event
  (\<^verbatim>\<open>>zXz\<close>), content type (\<^verbatim>\<open>aJ@j\<close>), status (\<^verbatim>\<open>nSLy\<close>) and content summary (\<^verbatim>\<open>[B|e\<close>) is
  \<^verbatim>\<open>None\<close> whenever its key is absent or its value is not a list whose first element is a
  non-empty list.
\<close>

theorem from_notion_page_absent_scalars:
  assumes "py_get page ''properties'' (PDict []) = Inr (PDict props)"
  shows "\<exists>r. from_notion_page f page = Inr r \<and>
           ((\<forall>v. map_of props ''>zXz'' = Some v \<longrightarrow> \<not> list_of_lists_shape v) \<longrightarrow> event r = PNone) \<and>
           ((\<forall>v. map_of props ''aJ@j'' = Some v \<longrightarrow> \<not> list_of_lists_shape v) \<longrightarrow> content_type r = PNone) \<and>
           ((\<forall>v. map_of props ''nSLy'' = Some v \<longrightarrow> \<not> list_of_lists_shape v) \<longrightarrow> status r = PNone) \<and>
           ((\<forall>v. map_of props ''[B|e'' = Some v \<longrightarrow> \<not> list_of_lists_shape v) \<longrightarrow> content_summary r = PNone)"
proof -
  from from_notion_page_dict[OF assms, of f] obtain r where
    r: "from_notion_page f page = Inr r"
       "get_first (PDict props) ''>zXz'' = Inr (event r)"
       "get_first (PDict props) ''aJ@j'' = Inr (content_type r)"
       "get_first (PDict props) ''nSLy'' = Inr (status r)"
       "get_first (PDict props) ''[B|e'' = Inr (content_summary r)"
    by fastforce
  show ?thesis
    using r get_first_no_shape[of props] by (intro exI[of _ r]) (metis sum.inject(2))
qed

text \<open>
  A page with no event, an empty list as content type, a plain string as status and
  \<^verbatim>\<open>[[]]\<close> as content summary: all four fields are \<^verbatim>\<open>None\<close>.
\<close>

theorem from_notion_page_absent_scalars_witness:
  "py_get (page_of ''p5'' (PDict props_bad_scalars)) ''properties'' (PDict []) = Inr (PDict props_bad_scalars) \<and>
   map_of props_bad_scalars ''>zXz'' = None \<and>
   \<not> list_of_lists_shape (PList []) \<and> \<not> list_of_lists_shape (PStr ''Posted'') \<and>
   \<not> list_of_lists_shape (PList [PList []]) \<and>
   (\<exists>r. from_notion_page fromisoformat_date (page_of ''p5'' (PDict props_bad_scalars)) = Inr r \<and>
        event r = PNone \<and> content_type r = PNone \<and> status r = PNone \<and> content_summary r = PNone)"
proof -
  have 1: "py_get (page_of ''p5'' (PDict props_bad_scalars)) ''properties'' (PDict []) = Inr (PDict props_bad_scalars)"
    by (simp add: page_of_def)
  show ?thesis
    using from_notion_page_absent_scalars[OF 1, of fromisoformat_date] 1
    by (simp add: props_bad_scalars_def)
qed

text \<open>
  C4, counterexample. The condition on \<^verbatim>\<open>properties\<close> is needed: on a page whose
  \<^verbatim>\<open>properties\<close> entry is a list every scalar key is absent, and \<^verbatim>\<open>from_notion_page\<close>
  raises AttributeError.
\<close>

theorem from_notion_page_absent_scalars_counterexample:
  "from_notion_page fromisoformat_date (page_of ''p6'' (PList [])) = Inl AttributeError"
  by (simp add: from_notion_page_def get_first_def page_of_def)

text \<open>
  C10. For every page whose \<^verbatim>\<open>properties\<close> entry is absent or a dict,
  \<^verbatim>\<open>from_notion_page\<close> returns a request whose title is not \<^verbatim>\<open>None\<close>, and whose title is
  the empty string whenever the title property is missing, is not a list whose first
  element is a non-empty list, or has an empty (falsy) first entry.
\<close>

theorem from_notion_page_title_default:
  assumes "py_get page ''properties'' (PDict []) = Inr (PDict props)"
  shows "\<exists>r. from_notion_page f page = Inr r \<and> title r \<noteq> PNone \<and>
           ((\<forall>v. map_of props ''title'' = Some v \<longrightarrow>
                 \<not> list_of_lists_shape v \<or>
                 (\<exists>x xs ys. v = PList (PList (x # xs) # ys) \<and> \<not> truthy x))
            \<longrightarrow> title r = PStr [])"
proof -
  from from_notion_page_dict[OF assms, of f] obtain r t where
    r: "from_notion_page f page = Inr r"
       "get_first (PDict props) ''title'' = Inr t" "title r = or_empty t"
    by fastforce
  have 1: "title r \<noteq> PNone" using r(1) by (rule from_notion_page_title)
  have 2: "title r = PStr []"
    if h: "\<forall>v. map_of props ''title'' = Some v \<longrightarrow>
                 \<not> list_of_lists_shape v \<or>
                 (\<exists>x xs ys. v = PList (PList (x # xs) # ys) \<and> \<not> truthy x)"
  proof -
    have "\<not> truthy t"
    proof (cases "map_of props ''title''")
      case None
      with r(2) show ?thesis by (simp add: get_first_shape)
    next
      case (Some v)
      with h have "\<not> list_of_lists_shape v \<or>
                 (\<exists>x xs ys. v = PList (PList (x # xs) # ys) \<and> \<not> truthy x)" by simp
      then show ?thesis
      proof
        assume "\<not> list_of_lists_shape v"
        with Some have "get_first (PDict props) ''title'' = Inr PNone"
          by (intro get_first_no_shape) simp
        with r(2) show ?thesis by simp
      next
        assume "\<exists>x xs ys. v = PList (PList (x # xs) # ys) \<and> \<not> truthy x"
        with Some r(2) show ?thesis by (auto simp: get_first_shape)
      qed
    qed
    with r(3) show ?thesis by (simp add: or_empty_def)
  qed
  from r(1) 1 2 show ?thesis by blast
qed

text \<open>
  Pages without a title, with the title \<^verbatim>\<open>[[""]]\<close> and with a plain string as title
  property: each is mapped to a request with the empty title.
\<close>

theorem from_notion_page_title_default_witness:
  "py_get (page_of ''p7'' (PDict props_untitled)) ''properties'' (PDict []) = Inr (PDict props_untitled) \<and>
   map_of props_untitled ''title'' = None \<and>
   map_of props_empty_title ''title'' = Some (PList [PList [PStr []]]) \<and> \<not> truthy (PStr []) \<and>
   map_of props_flat_title ''title'' = Some (PStr ''Launch'') \<and>
   \<not> list_of_lists_shape (PStr ''Launch'') \<and>
   (\<exists>r. from_notion_page fromisoformat_date (page_of ''p7'' (PDict props_untitled)) = Inr r \<and>
        title r = PStr []) \<and>
   (\<exists>r. from_notion_page fromisoformat_date (page_of ''p8'' (PDict props_empty_title)) = Inr r \<and>
        title r = PStr []) \<and>
   (\<exists>r. from_notion_page fromisoformat_date (page_of ''p9'' (PDict props_flat_title)) = Inr r \<and>
        title r = PStr [])"
proof -
  have 1: "py_get (page_of ''p7'' (PDict props_untitled)) ''properties'' (PDict []) = Inr (PDict props_untitled)"
    by (simp add: page_of_def)
  have 2: "py_get (page_of ''p8'' (PDict props_empty_title)) ''properties'' (PDict []) = Inr (PDict props_empty_title)"
    by (simp add: page_of_def)
  have 3: "py_get (page_of ''p9'' (PDict props_flat_title)) ''properties'' (PDict []) = Inr (PDict props_flat_title)"
    by (simp add: page_of_def)
  show ?thesis
    using from_notion_page_title_default[OF 1, of fromisoformat_date]
      from_notion_page_title_default[OF 2, of fromisoformat_date]
      from_notion_page_title_default[OF 3, of fromisoformat_date] 1
    by (simp add: props_untitled_def props_empty_title_def props_flat_title_def) blast
qed

text \<open>
  C10, counterexample. The condition on \<^verbatim>\<open>properties\<close> is needed: on a page whose
  \<^verbatim>\<open>properties\<close> entry is a string the title property is missing, and \<^verbatim>\<open>from_notion_page\<close>
  raises AttributeError instead of returning a request with the empty title.
\<close>

theorem from_notion_page_title_default_counterexample:
  "from_notion_page fromisoformat_date (page_of ''p10'' (PStr ''none'')) = Inl AttributeError"
  by (simp add: from_notion_page_def get_first_def page_of_def)

text \<open>
  C9. The class documents that a status which is not \<^verbatim>\<open>None\<close> is a key of
  \<^verbatim>\<open>STATUS_ORDER\<close>; \<^verbatim>\<open>from_notion_page\<close> stores the first entry of the status property
  unchecked. On a page of status \<^verbatim>\<open>"In Progress"\<close> it returns a request with that status,
  which is no key of \<^verbatim>\<open>STATUS_ORDER\<close>.
\<close>

theorem from_notion_page_unlisted_status:
  "from_notion_page fromisoformat_date (page_of ''p11'' (PDict props_in_progress)) =
     Inr \<lparr> req_id = PStr ''p11'', title = PStr ''Teaser'', event = PNone, content_type = PNone,
           status = PStr ''In Progress'', content_summary = PNone,
           post_date = Some (datetime 2025 2 3), final_post = PNone, visuals = PNone \<rparr> \<and>
   \<not> ranked (PStr ''In Progress'') \<and>
   map_of STATUS_ORDER ''In Progress'' = None"
  by code_simp

section \<open>Sorting the collection\<close>

lemma key_le_trans:
  assumes "key_le a b" and "key_le b c"
  shows "key_le a c"
proof -
  from assms(1) obtain ra da rb db where 1: "MarketingRequest_sort_key a = Inr (ra, da)"
      "MarketingRequest_sort_key b = Inr (rb, db)" "ra < rb \<or> (ra = rb \<and> date_le da db)"
    unfolding key_le_def by blast
  from assms(2) obtain rb' db' rc dc where 2: "MarketingRequest_sort_key b = Inr (rb', db')"
      "MarketingRequest_sort_key c = Inr (rc, dc)" "rb' < rc \<or> (rb' = rc \<and> date_le db' dc)"
    unfolding key_le_def by blast
  from 1(2) 2(1) have e: "rb' = rb" "db' = db" by simp_all
  from 1(3) 2(3) e have "ra < rc \<or> (ra = rc \<and> date_le da dc)"
    by (auto intro: date_le_trans)
  with 1(1) 2(2) show ?thesis unfolding key_le_def by blast
qed

text \<open>The insertion keeps the list in key order and adds exactly the new request.\<close>

lemma insort_request_sorted:
  "sorted_wrt key_le ys \<Longrightarrow> insort_request x ys = Inr zs \<Longrightarrow>
     sorted_wrt key_le zs \<and> mset zs = add_mset x (mset ys)"
proof (induction ys arbitrary: zs)
  case Nil
  then show ?case by auto
next
  case (Cons y ys)
  from Cons.prems(2) obtain t where t: "MarketingRequest_lt x y = Inr t"
    by (cases "MarketingRequest_lt x y") simp_all
  from lt_Inr_key_le[OF t] have k: "if t then key_le x y else key_le y x" .
  show ?case
  proof (cases t)
    case True
    with t Cons.prems(2) have zs: "zs = x # y # ys" by simp
    have xy: "key_le x y" using k True by simp
    have "\<forall>z\<in>set ys. key_le x z"
      using Cons.prems(1) xy by (auto intro: key_le_trans)
    with xy Cons.prems(1) zs show ?thesis by simp
  next
    case False
    with t Cons.prems(2) obtain zs' where zs': "insort_request x ys = Inr zs'" "zs = y # zs'"
      by (cases "insort_request x ys") simp_all
    from Cons.prems(1) have "sorted_wrt key_le ys" by simp
    from Cons.IH[OF this zs'(1)] have ih: "sorted_wrt key_le zs'" "mset zs' = add_mset x (mset ys)"
      by simp_all
    have yx: "key_le y x" using k False by simp
    from ih(2) have "set zs' = insert x (set ys)" by (metis set_mset_add_mset_insert set_mset_mset)
    with yx Cons.prems(1) have "\<forall>z\<in>set zs'. key_le y z" by auto
    with ih zs' show ?thesis by simp
  qed
qed

lemma sort_loop_sorted:
  "sorted_wrt key_le acc \<Longrightarrow> sort_loop acc xs = Inr zs \<Longrightarrow>
     sorted_wrt key_le zs \<and> mset zs = mset acc + mset xs"
proof (induction xs arbitrary: acc)
  case Nil
  then show ?case by simp
next
  case (Cons x xs)
  from Cons.prems(2) obtain acc' where a: "insort_request x acc = Inr acc'" "sort_loop acc' xs = Inr zs"
    by (cases "insort_request x acc") simp_all
  from insort_request_sorted[OF Cons.prems(1) a(1)]
  have s: "sorted_wrt key_le acc'" "mset acc' = add_mset x (mset acc)" by simp_all
  from Cons.IH[OF s(1) a(2)] s(2) show ?case by simp
qed

lemma list_sort_sorted:
  "list_sort rs = Inr zs \<Longrightarrow> sorted_wrt key_le zs \<and> mset zs = mset rs"
  using sort_loop_sorted[of "[]" rs zs] by (simp add: list_sort_def)

lemma map_blocks_pages:
  "map_blocks f bs acc = Inr rs \<Longrightarrow>
     \<forall>r\<in>set rs. r \<in> set acc \<or> (\<exists>page. from_notion_page f page = Inr r)"
proof (induction bs arbitrary: acc)
  case Nil
  then show ?case by simp
next
  case (Cons b bs)
  from Cons.prems obtain v req where
    v: "from_notion_page f v = Inr req" "map_blocks f bs (acc @ [req]) = Inr rs"
    by (auto split: sum.splits)
  from Cons.IH[OF v(2)] v(1) show ?case by auto
qed

lemma key_le_ranked:
  assumes "key_le a b" and "ranked (status b)"
  shows "ranked (status a)"
proof -
  from assms(1) obtain ra da rb db where k: "MarketingRequest_sort_key a = Inr (ra, da)"
      "MarketingRequest_sort_key b = Inr (rb, db)" "ra < rb \<or> (ra = rb \<and> date_le da db)"
    unfolding key_le_def by blast
  from assms(2) sort_key_rank_finite[OF k(2)] have "rb \<noteq> \<infinity>" by simp
  with k(3) have "ra \<noteq> \<infinity>" by (cases ra; cases rb) auto
  with sort_key_rank_finite[OF k(1)] show ?thesis by simp
qed

text \<open>
  What holds of every collection \<^verbatim>\<open>from_record_map\<close> returns: it is in key order, by status
  rank ascending and then by date ascending; no request whose status is missing or
  unranked stands before one whose status is ranked; and every request carries a post
  date.
\<close>

lemma from_record_map_sorted:
  assumes "from_record_map f record_map = Inr c"
  shows "sorted_wrt key_le (requests c) \<and>
         sorted_wrt (\<lambda>a b. ranked (status b) \<longrightarrow> ranked (status a)) (requests c) \<and>
         (\<forall>r\<in>set (requests c). \<exists>d. post_date r = Some d)"
proof -
  from assms obtain reqs bs where
    m: "map_blocks f bs [] = Inr reqs" and s: "list_sort reqs = Inr (requests c)"
    unfolding from_record_map_def ebind_def by (auto split: sum.splits)
  from list_sort_sorted[OF s] have 1: "sorted_wrt key_le (requests c)"
    and p: "mset (requests c) = mset reqs" by simp_all
  from 1 have 2: "sorted_wrt (\<lambda>a b. ranked (status b) \<longrightarrow> ranked (status a)) (requests c)"
    by (rule sorted_wrt_mono_rel[rotated]) (blast intro: key_le_ranked)
  from p have eq: "set (requests c) = set reqs" by (rule mset_eq_setD)
  have 3: "\<exists>d. post_date r = Some d" if "r \<in> set (requests c)" for r
  proof -
    from that eq map_blocks_pages[OF m] obtain page where
      "from_notion_page f page = Inr r" by auto
    then show ?thesis by (rule from_notion_page_post_date)
  qed
  from 1 2 3 show ?thesis by blast
qed


section \<open>Filtering the collection\<close>

lemma fetch_filter: "fetch val key rs = filter (\<lambda>r. key r = PStr val) rs"
proof (induction rs)
  case Nil
  show ?case by simp
next
  case (Cons r rs)
  have "py_eq_str (key r) val = (key r = PStr val)"
    by (cases "key r") auto
  with Cons show ?case by simp
qed

text \<open>
  C6. \<^verbatim>\<open>fetch_requests_by_status\<close> returns the requests of the collection, in their order,
  whose status is the given string: equality of strings is exact, so a status that
  differs in case or in any other way is left out, and no request of that status is.
\<close>

theorem fetch_requests_by_status_exact:
  "fetch_requests_by_status c s = filter (\<lambda>r. status r = PStr s) (requests c)"
  by (simp add: fetch_requests_by_status_def fetch_filter)

text \<open>
  Of a posted request and one without status, the status \<^verbatim>\<open>"Posted"\<close> selects the first
  and \<^verbatim>\<open>"posted"\<close> selects nothing.
\<close>

theorem fetch_requests_by_status_exact_witness:
  "fetch_requests_by_status \<lparr> requests = [posted_2030, no_status_no_date] \<rparr> ''Posted''
     = [posted_2030] \<and>
   fetch_requests_by_status \<lparr> requests = [posted_2030, no_status_no_date] \<rparr> ''posted''
     = []"
  using fetch_requests_by_status_exact[of "\<lparr> requests = [posted_2030, no_status_no_date] \<rparr>" "''Posted''"]
    fetch_requests_by_status_exact[of "\<lparr> requests = [posted_2030, no_status_no_date] \<rparr>" "''posted''"]
  by (simp add: posted_2030_def no_status_no_date_def)

text \<open>
  C5. Both callers evaluate \<^verbatim>\<open>filter_by_criterion\<close> on the collection the query returned;
  \<^verbatim>\<open>MarketingRequestCollection\<close> defines no such attribute, so the lookup raises
  AttributeError for every collection.
\<close>

theorem filter_by_criterion_missing:
  "posting_schedule_lookup (Inr y) = Inl AttributeError"
  by (simp add: posting_schedule_lookup_def collection_getattr_def MarketingRequestCollection_attributes_def)

section \<open>The webhook message\<close>

text \<open>
  C7. When \<^verbatim>\<open>requests.post\<close> returns a response, \<^verbatim>\<open>send_slack_webhook_message\<close> returns
  that response if its status code is 200, and otherwise raises an \<^verbatim>\<open>Exception\<close> whose
  message contains the decimal status code and the text of the response.
\<close>

theorem send_slack_webhook_message_raises:
  assumes "post webhook_url (webhook_payload message username icon_emoji markdown) = Inr resp"
  shows "(status_code resp = 200 \<longrightarrow>
            send_slack_webhook_message post webhook_url message username icon_emoji markdown = Inr resp) \<and>
         (status_code resp \<noteq> 200 \<longrightarrow>
            (\<exists>msg. send_slack_webhook_message post webhook_url message username icon_emoji markdown
                     = Inl (Exception msg) \<and>
                   sublist (str_int (status_code resp)) msg \<and> sublist (body_text resp) msg))"
proof -
  let ?msg = "''Request to Slack returned an error '' @ str_int (status_code resp)
                @ '', the response is:'' @ [CHR 0x0A] @ body_text resp"
  have 1: "sublist (str_int (status_code resp)) ?msg"
    by (rule sublist_appendI)
  have "suffix (body_text resp) ?msg"
    unfolding suffix_def by (rule exI[of _ "''Request to Slack returned an error '' @ str_int (status_code resp)
                @ '', the response is:'' @ [CHR 0x0A]"]) simp
  then have 2: "sublist (body_text resp) ?msg" by (rule suffix_imp_sublist)
  show ?thesis
    using assms 1 2 by (simp add: send_slack_webhook_message_def)
qed

text \<open>A response of status 500 raises with both parts in the message; one of status 200 is returned.\<close>

theorem send_slack_webhook_message_raises_witness:
  "send_slack_webhook_message (\<lambda>url payload. Inr \<lparr> status_code = 500, body_text = ''invalid_payload'' \<rparr>)
       ''https://hooks.slack.com/services/T0/B0/X'' ''hello'' ''Notifier'' '':robot_face:'' True
     = Inl (Exception (''Request to Slack returned an error 500, the response is:'' @ [CHR 0x0A] @ ''invalid_payload'')) \<and>
   send_slack_webhook_message (\<lambda>url payload. Inr \<lparr> status_code = 200, body_text = ''ok'' \<rparr>)
       ''https://hooks.slack.com/services/T0/B0/X'' ''hello'' ''Notifier'' '':robot_face:'' True
     = Inr \<lparr> status_code = 200, body_text = ''ok'' \<rparr>"
proof -
  have s: "str_int 500 = ''500''" by code_simp
  show ?thesis
    using send_slack_webhook_message_raises[of "\<lambda>url payload. Inr \<lparr> status_code = 500, body_text = ''invalid_payload'' \<rparr>"
      "''https://hooks.slack.com/services/T0/B0/X''" "''hello''" "''Notifier''" "'':robot_face:''" True
      "\<lparr> status_code = 500, body_text = ''invalid_payload'' \<rparr>"]
    send_slack_webhook_message_raises[of "\<lambda>url payload. Inr \<lparr> status_code = 200, body_text = ''ok'' \<rparr>"
      "''https://hooks.slack.com/services/T0/B0/X''" "''hello''" "''Notifier''" "'':robot_face:''" True
      "\<lparr> status_code = 200, body_text = ''ok'' \<rparr>"]
    by (simp add: send_slack_webhook_message_def s)
qed

section \<open>The polling loop\<close>

lemma poll_cycle_Inl: "poll_cycle q st = Inl e \<Longrightarrow> q = Inl e \<and> \<not> is_Exception e"
  by (auto simp: poll_cycle_def split: sum.splits if_splits)

lemma poll_cycle_caught:
  "is_Exception e \<Longrightarrow> poll_cycle (Inl e) st = Inr (st \<lparr> stdout := stdout st @ [Error_fetching e] \<rparr>)"
  by (simp add: poll_cycle_def)

lemma poll_cycle_total:
  assumes "\<forall>e. q = Inl e \<longrightarrow> is_Exception e"
  shows "\<exists>st'. poll_cycle q st = Inr st'"
  using assms by (cases q) (simp_all add: poll_cycle_def)

lemma fetch_notion_data_runs:
  assumes "fetch_notion_data query n st = Some r"
  shows "\<exists>k e. query k = Inl e \<and> \<not> is_Exception e"
proof (rule fetch_notion_data.raw_induct[where P = "\<lambda>q n st r. \<exists>k e. q k = Inl e \<and> \<not> is_Exception e", OF _ assms])
  fix loop q n st r
  assume ih: "\<And>q n st r. loop q n st = Some r \<Longrightarrow> \<exists>k e. q k = Inl e \<and> \<not> is_Exception e"
    and step: "(case poll_cycle (q n) st of Inl e \<Rightarrow> Some (e, st)
                | Inr st' \<Rightarrow> loop q (Suc n) st') = Some r"
  show "\<exists>k e. q k = Inl e \<and> \<not> is_Exception e"
  proof (cases "poll_cycle (q n) st")
    case (Inl e)
    then show ?thesis using poll_cycle_Inl by blast
  next
    case (Inr st')
    with step have "loop q (Suc n) st' = Some r" by simp
    then show ?thesis by (rule ih)
  qed
qed

lemma state_after_total:
  assumes "\<forall>n e. query n = Inl e \<longrightarrow> is_Exception e"
  shows "\<exists>s. state_after query k st = Inr s"
proof (induction k)
  case 0
  show ?case by simp
next
  case (Suc k)
  then obtain s where s: "state_after query k st = Inr s" by blast
  from assms have "\<forall>e. query k = Inl e \<longrightarrow> is_Exception e" by blast
  from poll_cycle_total[OF this, of s] s show ?case by simp
qed

text \<open>
  C8. While every exception the query raises is an \<^verbatim>\<open>Exception\<close>, the loop never ends and
  reaches every pass; and in a pass whose query raises, the global \<^verbatim>\<open>notion_data\<close> after
  the pass is what it was before, as is what the \<^verbatim>\<open>/getbacklog\<close> handler reads from it.
\<close>

theorem poll_failure_keeps_snapshot:
  assumes "\<forall>n e. query n = Inl e \<longrightarrow> is_Exception e"
  shows "fetch_notion_data query 0 st = None \<and>
         (\<exists>s. state_after query k st = Inr s \<and>
            (\<forall>e. query k = Inl e \<longrightarrow>
               (\<exists>s'. state_after query (Suc k) st = Inr s' \<and>
                     notion_data s' = notion_data s \<and>
                     backlog_requests s' = backlog_requests s)))"
proof -
  have 1: "fetch_notion_data query 0 st = None"
  proof (cases "fetch_notion_data query 0 st")
    case (Some r)
    from fetch_notion_data_runs[OF this] assms show ?thesis by blast
  qed simp
  from state_after_total[OF assms] obtain s where s: "state_after query k st = Inr s" by blast
  have "\<exists>s'. state_after query (Suc k) st = Inr s' \<and> notion_data s' = notion_data s \<and>
              backlog_requests s' = backlog_requests s" if q: "query k = Inl e" for e
  proof -
    from assms q have "is_Exception e" by blast
    with s q show ?thesis by (simp add: poll_cycle_caught backlog_requests_def)
  qed
  with 1 s show ?thesis by blast
qed

text \<open>
  The query succeeds once and fails from then on: the loop runs forever, and the second
  pass leaves the collection of the first in place and prints the error.
\<close>

theorem poll_failure_keeps_snapshot_witness:
  "is_Exception HTTPError \<and> succeed_then_fail 1 = Inl HTTPError \<and>
   fetch_notion_data succeed_then_fail 0 initial_state = None \<and>
   state_after succeed_then_fail 1 initial_state =
     Inr \<lparr> notion_data = Some \<lparr> requests = [] \<rparr>, stdout = [Updated \<lparr> requests = [] \<rparr>] \<rparr> \<and>
   state_after succeed_then_fail 2 initial_state =
     Inr \<lparr> notion_data = Some \<lparr> requests = [] \<rparr>,
           stdout = [Updated \<lparr> requests = [] \<rparr>, Error_fetching HTTPError] \<rparr>"
proof -
  have h: "\<forall>n e. succeed_then_fail n = Inl e \<longrightarrow> is_Exception e"
    by (auto simp: succeed_then_fail_def)
  have 1: "state_after succeed_then_fail 1 initial_state =
     Inr \<lparr> notion_data = Some \<lparr> requests = [] \<rparr>, stdout = [Updated \<lparr> requests = [] \<rparr>] \<rparr>"
    by code_simp
  have 2: "state_after succeed_then_fail 2 initial_state =
     Inr \<lparr> notion_data = Some \<lparr> requests = [] \<rparr>,
           stdout = [Updated \<lparr> requests = [] \<rparr>, Error_fetching HTTPError] \<rparr>"
    by code_simp
  have q: "succeed_then_fail 1 = Inl HTTPError"
    by (simp add: succeed_then_fail_def)
  from poll_failure_keeps_snapshot[OF h, of initial_state 1] 1 2 q
  show ?thesis by simp
qed

end
